theory Spec2Isabelle
  imports Main "HOL-Library.Word"
begin

unbundle bit_operations_syntax

section \<open>JSON values and the runtime's JSON functions\<close>

text \<open>
  Request and response bodies are the values that \<^verbatim>\<open>express.json()\<close> and axios hand to
  the handler: JSON documents. Strings are byte strings (the UTF-8 bytes of the JavaScript
  string, which is what \<^verbatim>\<open>hash.update\<close> digests). Numbers are the integers that JavaScript
  prints in plain decimal notation; fractions and exponents are outside the model. An
  object is the list of its properties in enumeration order.
\<close>

datatype json =
    JNull
  | JBool bool
  | JNum int
  | JStr string
  | JArr "json list"
  | JObj "(string \<times> json) list"

definition dquote :: char where
  "dquote = CHR 0x22"

definition bslash :: char where
  "bslash = CHR 0x5C"

definition hex_digits :: string where
  "hex_digits = ''0123456789abcdef''"

definition hex_digit :: "nat \<Rightarrow> char" where
  "hex_digit n = hex_digits ! (n mod 16)"

definition digit_char :: "nat \<Rightarrow> char" where
  "digit_char n = char_of (48 + n mod 10)"

fun show_nat :: "nat \<Rightarrow> string" where
  "show_nat n = (if n < 10 then [digit_char n] else show_nat (n div 10) @ [digit_char n])"

declare show_nat.simps [simp del]

definition show_int :: "int \<Rightarrow> string" where
  "show_int i = (if i < 0 then CHR ''-'' # show_nat (nat (- i)) else show_nat (nat i))"

text \<open>\<^verbatim>\<open>QuoteJSONString\<close>: the two-character escapes, \<^verbatim>\<open>\u00xx\<close> for the other control
  characters, every other byte as it is.\<close>

definition quote_char :: "char \<Rightarrow> string" where
  "quote_char c =
     (if c = dquote then [bslash, dquote]
      else if c = bslash then [bslash, bslash]
      else if c = CHR 0x08 then [bslash, CHR ''b'']
      else if c = CHR 0x0C then [bslash, CHR ''f'']
      else if c = CHR 0x0A then [bslash, CHR ''n'']
      else if c = CHR 0x0D then [bslash, CHR ''r'']
      else if c = CHR 0x09 then [bslash, CHR ''t'']
      else if (of_char c :: nat) < 32
        then [bslash, CHR ''u'', CHR ''0'', CHR ''0'',
              hex_digit (of_char c div 16), hex_digit (of_char c)]
      else [c])"

definition quote :: "string \<Rightarrow> string" where
  "quote s = dquote # concat (map quote_char s) @ [dquote]"

fun commas :: "string list \<Rightarrow> string" where
  "commas [] = []"
| "commas [x] = x"
| "commas (x # y # ys) = x @ CHR '','' # commas (y # ys)"

definition member_text :: "string \<times> string \<Rightarrow> string" where
  "member_text kv = quote (fst kv) @ CHR '':'' # snd kv"

text \<open>\<^verbatim>\<open>JSON.stringify(value)\<close> with no indentation.\<close>

primrec JSON_stringify :: "json \<Rightarrow> string" where
  "JSON_stringify JNull = ''null''"
| "JSON_stringify (JBool b) = (if b then ''true'' else ''false'')"
| "JSON_stringify (JNum i) = show_int i"
| "JSON_stringify (JStr s) = quote s"
| "JSON_stringify (JArr xs) = CHR ''['' # commas (map JSON_stringify xs) @ '']''"
| "JSON_stringify (JObj ms) =
     CHR ''{'' # commas (map member_text (map (map_prod id JSON_stringify) ms)) @ ''}''"

text \<open>
  \<^verbatim>\<open>JSON.parse(text)\<close>: a recursive-descent reader of the JSON grammar. \<open>None\<close> stands for
  the \<^verbatim>\<open>SyntaxError\<close> that \<^verbatim>\<open>JSON.parse\<close> throws. A number with a fraction or an exponent
  is outside the model's numbers and is reported as \<open>None\<close> as well.
\<close>

definition is_ws :: "char \<Rightarrow> bool" where
  "is_ws c = (c = CHR '' '' \<or> c = CHR 0x09 \<or> c = CHR 0x0A \<or> c = CHR 0x0D)"

definition skip_ws :: "string \<Rightarrow> string" where
  "skip_ws cs = dropWhile is_ws cs"

definition is_digit :: "char \<Rightarrow> bool" where
  "is_digit c = (48 \<le> (of_char c :: nat) \<and> (of_char c :: nat) \<le> 57)"

definition digit_val :: "char \<Rightarrow> nat" where
  "digit_val c = of_char c - 48"

definition read_nat :: "string \<Rightarrow> nat" where
  "read_nat ds = foldl (\<lambda>acc c. 10 * acc + digit_val c) 0 ds"

definition hex_val :: "char \<Rightarrow> nat option" where
  "hex_val c =
     (let n = (of_char c :: nat) in
      if 48 \<le> n \<and> n \<le> 57 then Some (n - 48)
      else if 97 \<le> n \<and> n \<le> 102 then Some (n - 87)
      else if 65 \<le> n \<and> n \<le> 70 then Some (n - 55)
      else None)"

definition hex4 :: "char \<Rightarrow> char \<Rightarrow> char \<Rightarrow> char \<Rightarrow> nat option" where
  "hex4 h1 h2 h3 h4 =
     (case (hex_val h1, hex_val h2, hex_val h3, hex_val h4) of
        (Some a, Some b, Some c, Some d) \<Rightarrow> Some (4096 * a + 256 * b + 16 * c + d)
      | _ \<Rightarrow> None)"

text \<open>The bytes of the code unit of a \<^verbatim>\<open>\uXXXX\<close> escape (each unit encoded on its own).\<close>

definition utf8 :: "nat \<Rightarrow> string" where
  "utf8 n =
     (if n < 0x80 then [char_of n]
      else if n < 0x800 then [char_of (0xC0 + n div 64), char_of (0x80 + n mod 64)]
      else [char_of (0xE0 + n div 4096), char_of (0x80 + (n div 64) mod 64),
            char_of (0x80 + n mod 64)])"

definition unescape :: "char \<Rightarrow> char option" where
  "unescape e =
     (if e = dquote then Some dquote
      else if e = bslash then Some bslash
      else if e = CHR ''/'' then Some CHR ''/''
      else if e = CHR ''b'' then Some (CHR 0x08)
      else if e = CHR ''f'' then Some (CHR 0x0C)
      else if e = CHR ''n'' then Some (CHR 0x0A)
      else if e = CHR ''r'' then Some (CHR 0x0D)
      else if e = CHR ''t'' then Some (CHR 0x09)
      else None)"

text \<open>The characters of a string literal after its opening quote, up to the closing one.\<close>

fun parse_chars :: "string \<Rightarrow> (string \<times> string) option" where
  "parse_chars [] = None"
| "parse_chars (c # cs) =
     (if c = dquote then Some ([], cs)
      else if c = bslash then
        (case cs of
           [] \<Rightarrow> None
         | e # cs1 \<Rightarrow>
             if e = CHR ''u'' then
               (case cs1 of
                  h1 # h2 # h3 # h4 # cs2 \<Rightarrow>
                    (case hex4 h1 h2 h3 h4 of
                       None \<Rightarrow> None
                     | Some n \<Rightarrow>
                         (case parse_chars cs2 of
                            None \<Rightarrow> None
                          | Some (s, r) \<Rightarrow> Some (utf8 n @ s, r)))
                | _ \<Rightarrow> None)
             else
               (case unescape e of
                  None \<Rightarrow> None
                | Some ch \<Rightarrow>
                    (case parse_chars cs1 of
                       None \<Rightarrow> None
                     | Some (s, r) \<Rightarrow> Some (ch # s, r))))
      else if (of_char c :: nat) < 32 then None
      else
        (case parse_chars cs of
           None \<Rightarrow> None
         | Some (s, r) \<Rightarrow> Some (c # s, r)))"

definition strip_prefix :: "string \<Rightarrow> string \<Rightarrow> string option" where
  "strip_prefix p cs = (if take (length p) cs = p then Some (drop (length p) cs) else None)"

definition parse_number :: "string \<Rightarrow> (json \<times> string) option" where
  "parse_number cs =
     (let neg = (case cs of [] \<Rightarrow> False | c # _ \<Rightarrow> c = CHR ''-'');
          r = (if neg then tl cs else cs);
          ds = takeWhile is_digit r;
          rest = dropWhile is_digit r
      in if ds = [] then None
         else if 1 < length ds \<and> take 1 ds = ''0'' then None
         else if take 1 rest = ''.'' \<or> take 1 rest = ''e'' \<or> take 1 rest = ''E'' then None
         else Some (JNum (if neg then - int (read_nat ds) else int (read_nat ds)), rest))"

text \<open>Assigning a property: an existing name keeps its place, a new one goes last.\<close>

fun obj_set :: "string \<Rightarrow> json \<Rightarrow> (string \<times> json) list \<Rightarrow> (string \<times> json) list" where
  "obj_set k v [] = [(k, v)]"
| "obj_set k v (p # ps) = (if fst p = k then (k, v) # ps else p # obj_set k v ps)"

text \<open>
  The value reader. The first argument bounds the number of nested calls; \<open>JSON_parse\<close>
  starts it above the length of the text, and every nested call follows at least one
  character read.
\<close>

fun parse_value :: "nat \<Rightarrow> string \<Rightarrow> (json \<times> string) option"
  and parse_elems :: "nat \<Rightarrow> json list \<Rightarrow> string \<Rightarrow> (json \<times> string) option"
  and parse_members :: "nat \<Rightarrow> (string \<times> json) list \<Rightarrow> string \<Rightarrow> (json \<times> string) option"
where
  "parse_value 0 cs = None"
| "parse_value (Suc f) cs =
     (case skip_ws cs of
        [] \<Rightarrow> None
      | c # r \<Rightarrow>
          if c = CHR ''{'' then
            (case skip_ws r of
               [] \<Rightarrow> None
             | c2 # r2 \<Rightarrow> if c2 = CHR ''}'' then Some (JObj [], r2) else parse_members f [] r)
          else if c = CHR ''['' then
            (case skip_ws r of
               [] \<Rightarrow> None
             | c2 # r2 \<Rightarrow> if c2 = CHR '']'' then Some (JArr [], r2) else parse_elems f [] r)
          else if c = dquote then
            (case parse_chars r of None \<Rightarrow> None | Some (s, r') \<Rightarrow> Some (JStr s, r'))
          else if c = CHR ''n'' then
            (case strip_prefix ''ull'' r of None \<Rightarrow> None | Some r' \<Rightarrow> Some (JNull, r'))
          else if c = CHR ''t'' then
            (case strip_prefix ''rue'' r of None \<Rightarrow> None | Some r' \<Rightarrow> Some (JBool True, r'))
          else if c = CHR ''f'' then
            (case strip_prefix ''alse'' r of None \<Rightarrow> None | Some r' \<Rightarrow> Some (JBool False, r'))
          else parse_number (c # r))"
| "parse_elems 0 acc cs = None"
| "parse_elems (Suc f) acc cs =
     (case parse_value f cs of
        None \<Rightarrow> None
      | Some (v, r) \<Rightarrow>
          (case skip_ws r of
             [] \<Rightarrow> None
           | c # r' \<Rightarrow>
               if c = CHR '','' then parse_elems f (acc @ [v]) r'
               else if c = CHR '']'' then Some (JArr (acc @ [v]), r')
               else None))"
| "parse_members 0 acc cs = None"
| "parse_members (Suc f) acc cs =
     (case skip_ws cs of
        [] \<Rightarrow> None
      | c # r \<Rightarrow>
          if c \<noteq> dquote then None
          else
            (case parse_chars r of
               None \<Rightarrow> None
             | Some (k, r1) \<Rightarrow>
                 (case skip_ws r1 of
                    [] \<Rightarrow> None
                  | c1 # r2 \<Rightarrow>
                      if c1 \<noteq> CHR '':'' then None
                      else
                        (case parse_value f r2 of
                           None \<Rightarrow> None
                         | Some (v, r3) \<Rightarrow>
                             (case skip_ws r3 of
                                [] \<Rightarrow> None
                              | c3 # r4 \<Rightarrow>
                                  if c3 = CHR '','' then parse_members f (obj_set k v acc) r4
                                  else if c3 = CHR ''}'' then Some (JObj (obj_set k v acc), r4)
                                  else None)))))"

definition JSON_parse :: "string \<Rightarrow> json option" where
  "JSON_parse cs =
     (case parse_value (Suc (length cs)) cs of
        None \<Rightarrow> None
      | Some (v, r) \<Rightarrow> if skip_ws r = [] then Some v else None)"

section \<open>Well-formed values and the shape of serialized text\<close>





section \<open>The digest of the key: MD5 (RFC 1321), as \<^verbatim>\<open>crypto.createHash("md5")\<close> computes it\<close>

type_synonym u8 = "8 word"
type_synonym u32 = "32 word"
type_synonym md5_state = "u32 \<times> u32 \<times> u32 \<times> u32"

definition md5_K :: "u32 list" where
  "md5_K =
   [0xd76aa478, 0xe8c7b756, 0x242070db, 0xc1bdceee, 0xf57c0faf, 0x4787c62a, 0xa8304613, 0xfd469501,
    0x698098d8, 0x8b44f7af, 0xffff5bb1, 0x895cd7be, 0x6b901122, 0xfd987193, 0xa679438e, 0x49b40821,
    0xf61e2562, 0xc040b340, 0x265e5a51, 0xe9b6c7aa, 0xd62f105d, 0x02441453, 0xd8a1e681, 0xe7d3fbc8,
    0x21e1cde6, 0xc33707d6, 0xf4d50d87, 0x455a14ed, 0xa9e3e905, 0xfcefa3f8, 0x676f02d9, 0x8d2a4c8a,
    0xfffa3942, 0x8771f681, 0x6d9d6122, 0xfde5380c, 0xa4beea44, 0x4bdecfa9, 0xf6bb4b60, 0xbebfbc70,
    0x289b7ec6, 0xeaa127fa, 0xd4ef3085, 0x04881d05, 0xd9d4d039, 0xe6db99e5, 0x1fa27cf8, 0xc4ac5665,
    0xf4292244, 0x432aff97, 0xab9423a7, 0xfc93a039, 0x655b59c3, 0x8f0ccc92, 0xffeff47d, 0x85845dd1,
    0x6fa87e4f, 0xfe2ce6e0, 0xa3014314, 0x4e0811a1, 0xf7537e82, 0xbd3af235, 0x2ad7d2bb, 0xeb86d391]"

definition md5_s :: "nat list" where
  "md5_s =
   [7, 12, 17, 22, 7, 12, 17, 22, 7, 12, 17, 22, 7, 12, 17, 22,
    5, 9, 14, 20, 5, 9, 14, 20, 5, 9, 14, 20, 5, 9, 14, 20,
    4, 11, 16, 23, 4, 11, 16, 23, 4, 11, 16, 23, 4, 11, 16, 23,
    6, 10, 15, 21, 6, 10, 15, 21, 6, 10, 15, 21, 6, 10, 15, 21]"

definition md5_init :: md5_state where
  "md5_init = (0x67452301, 0xefcdab89, 0x98badcfe, 0x10325476)"

text \<open>One of the 64 operations on a block \<open>m\<close> of sixteen words.\<close>

definition md5_step :: "u32 list \<Rightarrow> nat \<Rightarrow> md5_state \<Rightarrow> md5_state" where
  "md5_step m i st =
     (case st of (a, b, c, d) \<Rightarrow>
        let (f, g) =
              (if i < 16 then ((b AND c) OR (NOT b AND d), i)
               else if i < 32 then ((d AND b) OR (NOT d AND c), (5 * i + 1) mod 16)
               else if i < 48 then (b XOR c XOR d, (3 * i + 5) mod 16)
               else (c XOR (b OR NOT d), (7 * i) mod 16));
            f' = f + a + md5_K ! i + m ! g
        in (d, b + word_rotl (md5_s ! i) f', b, c))"

definition md5_block :: "u32 list \<Rightarrow> md5_state \<Rightarrow> md5_state" where
  "md5_block m st =
     (case (st, fold (md5_step m) [0..<64] st) of
        ((a0, b0, c0, d0), (a, b, c, d)) \<Rightarrow> (a0 + a, b0 + b, c0 + c, d0 + d))"

fun le_words :: "u8 list \<Rightarrow> u32 list" where
  "le_words (b0 # b1 # b2 # b3 # bs) =
     (ucast b0 OR push_bit 8 (ucast b1) OR push_bit 16 (ucast b2) OR push_bit 24 (ucast b3))
       # le_words bs"
| "le_words _ = []"

definition le_bytes :: "nat \<Rightarrow> 'a::len word \<Rightarrow> u8 list" where
  "le_bytes n w = map (\<lambda>k. ucast (drop_bit (8 * k) w)) [0..<n]"

text \<open>Padding: a one bit, zeros up to 56 bytes modulo 64, the bit length in 64 bits.\<close>

definition md5_pad :: "u8 list \<Rightarrow> u8 list" where
  "md5_pad bs =
     bs @ [0x80] @ replicate ((119 - length bs mod 64) mod 64) 0
        @ le_bytes 8 (8 * of_nat (length bs) :: 64 word)"

function md5_blocks :: "u8 list \<Rightarrow> md5_state \<Rightarrow> md5_state" where
  "md5_blocks bs st =
     (if length bs < 64 then st
      else md5_blocks (drop 64 bs) (md5_block (le_words (take 64 bs)) st))"
  by pat_completeness auto
termination
  by (relation "measure (\<lambda>(bs, st). length bs)") auto

declare md5_blocks.simps [simp del]

definition md5_digest :: "u8 list \<Rightarrow> u8 list" where
  "md5_digest bs =
     (case md5_blocks (md5_pad bs) md5_init of
        (a, b, c, d) \<Rightarrow> concat (map (le_bytes 4) [a, b, c, d]))"

definition hex_byte :: "u8 \<Rightarrow> string" where
  "hex_byte b = [hex_digit (unat b div 16), hex_digit (unat b)]"

text \<open>\<^verbatim>\<open>createHash("md5").update(s).digest("hex")\<close>\<close>

definition md5_hex :: "string \<Rightarrow> string" where
  "md5_hex s = concat (map hex_byte (md5_digest (map of_char s)))"

section \<open>The cache key\<close>

text \<open>
  \<^verbatim>\<open>function makeKey(body) {
    return "vroom:" + crypto.createHash("md5").update(JSON.stringify(body)).digest("hex");
  }\<close>
\<close>

definition makeKey :: "json \<Rightarrow> string" where
  "makeKey body = ''vroom:'' @ md5_hex (JSON_stringify body)"

section \<open>Errors, the upstream exchange and axios\<close>

text \<open>
  The properties of a caught error that the handlers read: \<^verbatim>\<open>err.isAxiosError\<close>,
  \<^verbatim>\<open>err.code\<close> (\<open>None\<close> when undefined), \<^verbatim>\<open>err.message\<close>, whether \<^verbatim>\<open>err.request\<close> is
  set, and \<^verbatim>\<open>err.response\<close> (status and data) when the upstream answered.
\<close>

record js_error =
  isAxiosError :: bool
  err_code :: "string option"
  err_message :: string
  err_request :: bool
  err_response :: "(nat \<times> json) option"

text \<open>An error thrown by anything but axios: the Redis client, \<^verbatim>\<open>JSON.parse\<close>.\<close>

definition plain_error :: "string \<Rightarrow> js_error" where
  "plain_error msg =
     \<lparr>isAxiosError = False, err_code = None, err_message = msg, err_request = False,
      err_response = None\<rparr>"

text \<open>What one HTTP exchange with an upstream service comes to: a response (status and
  parsed body), or an error raised by the call. A call that runs into its timeout (60
  seconds for the proxied request, 5 seconds for a probe) is an exchange of the second
  kind.\<close>

datatype exchange = Responds nat json | Rejects js_error

text \<open>The upstream never responded (connection refused, DNS failure, timeout): axios rejects
  with an error that carries the request, no response, and the failure code when there is
  one.\<close>

definition transport_failure :: "string option \<Rightarrow> string \<Rightarrow> exchange" where
  "transport_failure c msg =
     Rejects \<lparr>isAxiosError = True, err_code = c, err_message = msg, err_request = True,
              err_response = None\<rparr>"

text \<open>
  axios settles a received response by its \<^verbatim>\<open>validateStatus\<close> option: the promise resolves
  when the status is missing or accepted, and rejects with an error carrying the response
  otherwise (code \<^verbatim>\<open>ERR_BAD_REQUEST\<close> for 4xx, \<^verbatim>\<open>ERR_BAD_RESPONSE\<close> for 5xx).
\<close>

definition settle :: "(nat \<Rightarrow> bool) \<Rightarrow> exchange \<Rightarrow> js_error + (nat \<times> json)" where
  "settle validateStatus x =
     (case x of
        Rejects e \<Rightarrow> Inl e
      | Responds s d \<Rightarrow>
          if s = 0 \<or> validateStatus s then Inr (s, d)
          else Inl \<lparr>isAxiosError = True,
                    err_code = (if s div 100 = 4 then Some ''ERR_BAD_REQUEST''
                                else if s div 100 = 5 then Some ''ERR_BAD_RESPONSE''
                                else None),
                    err_message = ''Request failed with status code '' @ show_nat s,
                    err_request = True,
                    err_response = Some (s, d)\<rparr>)"

text \<open>JavaScript's \<^verbatim>\<open>a || b\<close> on strings: an undefined or empty \<open>a\<close> gives \<open>b\<close>.\<close>

definition truthy :: "string option \<Rightarrow> bool" where
  "truthy x = (case x of None \<Rightarrow> False | Some v \<Rightarrow> v \<noteq> [])"

definition or_else :: "string option \<Rightarrow> string \<Rightarrow> string" where
  "or_else x d = (case x of None \<Rightarrow> d | Some v \<Rightarrow> if v = [] then d else v)"

section \<open>The cache store, the response object and the effects of a request\<close>

text \<open>The store maps a key to its value and the time (in seconds) at which it expires.\<close>

type_synonym store = "string \<rightharpoonup> string \<times> nat"

definition lookup :: "store \<Rightarrow> nat \<Rightarrow> string \<Rightarrow> string option" where
  "lookup st t k =
     (case st k of None \<Rightarrow> None | Some (v, expires) \<Rightarrow> if t < expires then Some v else None)"

record response =
  statusCode :: nat
  headers :: "string \<rightharpoonup> string"
  sent :: "json option"

definition fresh_response :: response where
  "fresh_response = \<lparr>statusCode = 200, headers = Map.empty, sent = None\<rparr>"

datatype event =
    RedisGet string
  | RedisSetEx string nat string
  | HttpPost string json
  | ConsoleError string string

record world =
  cache :: store
  effects :: "event list"
  res :: response

text \<open>
  The two configured targets (\<^verbatim>\<open>process.env.VROOM_URL\<close>, \<^verbatim>\<open>process.env.REDIS_URL\<close> or their
  defaults), and what the outside does during one request: the time, whether the Redis
  client rejects the read or the write (with the error's message), and what the exchange
  with VROOM comes to.
\<close>

record config =
  VROOM_URL :: string
  REDIS_URL :: string

record env = config +
  now :: nat
  get_fault :: "string option"
  setEx_fault :: "string option"
  upstream :: exchange

text \<open>An awaited call either returns a value or throws, and may change the world.\<close>

type_synonym 'a io = "world \<Rightarrow> (js_error + 'a) \<times> world"

definition return_io :: "'a \<Rightarrow> 'a io" where
  "return_io a w = (Inr a, w)"

definition bind_io :: "'a io \<Rightarrow> ('a \<Rightarrow> 'b io) \<Rightarrow> 'b io" where
  "bind_io m f w = (case m w of (Inl e, w') \<Rightarrow> (Inl e, w') | (Inr a, w') \<Rightarrow> f a w')"

definition try_catch :: "'a io \<Rightarrow> (js_error \<Rightarrow> 'a io) \<Rightarrow> 'a io" where
  "try_catch m h w = (case m w of (Inl e, w') \<Rightarrow> h e w' | (Inr a, w') \<Rightarrow> (Inr a, w'))"

definition emit :: "event \<Rightarrow> world \<Rightarrow> world" where
  "emit ev w = w\<lparr>effects := effects w @ [ev]\<rparr>"

definition redis_get :: "env \<Rightarrow> string \<Rightarrow> string option io" where
  "redis_get e key w =
     (case get_fault e of
        Some msg \<Rightarrow> (Inl (plain_error msg), emit (RedisGet key) w)
      | None \<Rightarrow> (Inr (lookup (cache w) (now e) key), emit (RedisGet key) w))"

definition redis_setEx :: "env \<Rightarrow> string \<Rightarrow> nat \<Rightarrow> string \<Rightarrow> unit io" where
  "redis_setEx e key seconds v w =
     (case setEx_fault e of
        Some msg \<Rightarrow> (Inl (plain_error msg), emit (RedisSetEx key seconds v) w)
      | None \<Rightarrow>
          (Inr (), emit (RedisSetEx key seconds v)
                     (w\<lparr>cache := (cache w)(key \<mapsto> (v, now e + seconds))\<rparr>)))"

definition axios_post :: "env \<Rightarrow> string \<Rightarrow> json \<Rightarrow> (nat \<Rightarrow> bool) \<Rightarrow> (nat \<times> json) io" where
  "axios_post e url body validateStatus w =
     (settle validateStatus (upstream e), emit (HttpPost url body) w)"

definition JSON_parse_io :: "string \<Rightarrow> json io" where
  "JSON_parse_io text w =
     (case JSON_parse text of
        None \<Rightarrow> (Inl (plain_error ''Unexpected token in JSON''), w)
      | Some v \<Rightarrow> (Inr v, w))"

definition res_set :: "string \<Rightarrow> string \<Rightarrow> unit io" where
  "res_set name v w = (Inr (), w\<lparr>res := (res w)\<lparr>headers := (headers (res w))(name \<mapsto> v)\<rparr>\<rparr>)"

definition res_status :: "nat \<Rightarrow> unit io" where
  "res_status s w = (Inr (), w\<lparr>res := (res w)\<lparr>statusCode := s\<rparr>\<rparr>)"

definition res_json :: "json \<Rightarrow> unit io" where
  "res_json v w = (Inr (), w\<lparr>res := (res w)\<lparr>sent := Some v\<rparr>\<rparr>)"

definition console_error :: "string \<Rightarrow> string \<Rightarrow> unit io" where
  "console_error label detail w = (Inr (), emit (ConsoleError label detail) w)"

text \<open>\<^verbatim>\<open>typeof v === "object"\<close> on a parsed body (true of objects, arrays and
  \<^verbatim>\<open>null\<close>), and \<^verbatim>\<open>String(v)\<close>, which the handler applies to the other values only.\<close>

definition typeof_object :: "json \<Rightarrow> bool" where
  "typeof_object v = (case v of JNull \<Rightarrow> True | JArr _ \<Rightarrow> True | JObj _ \<Rightarrow> True | _ \<Rightarrow> False)"

definition js_String :: "json \<Rightarrow> string" where
  "js_String v =
     (case v of
        JStr s \<Rightarrow> s
      | JNum i \<Rightarrow> show_int i
      | JBool b \<Rightarrow> (if b then ''true'' else ''false'')
      | _ \<Rightarrow> JSON_stringify v)"

section \<open>The proxy handler: \<^verbatim>\<open>app.post("/")\<close> of server.js\<close>

text \<open>
  \<^verbatim>\<open>app.post("/", async (req, res) => {
    const key = makeKey(req.body);
    try {
      const cached = await redis.get(key);
      if (cached) {
        res.set("X-Cache", "HIT");
        return res.json(JSON.parse(cached));
      }
      const vroomRes = await axios.post(VROOM_URL, req.body, {
        headers: { "Content-Type": "application/json" },
        timeout: 60_000,
        validateStatus: () => true,
      });
      if (vroomRes.status === 200) {
        await redis.setEx(key, 3600, JSON.stringify(vroomRes.data));
      }
      res.set("X-Cache", "MISS");
      res.status(vroomRes.status).json(vroomRes.data);
    } catch (err) { ... }
  });\<close>

  \<open>forward\<close> is the part of the \<^verbatim>\<open>try\<close> block after the cache test, \<open>try_block\<close> the
  whole block: the test \<^verbatim>\<open>if (cached)\<close> fails for \<^verbatim>\<open>null\<close> and for the empty string. A
  timeout of the call is one of the exchanges in which the upstream does not respond.
\<close>

definition forward :: "env \<Rightarrow> json \<Rightarrow> string \<Rightarrow> unit io" where
  "forward e body key =
     bind_io (axios_post e (VROOM_URL e) body (\<lambda>status. True)) (\<lambda>vroomRes.
     bind_io (if fst vroomRes = 200
              then redis_setEx e key 3600 (JSON_stringify (snd vroomRes))
              else return_io ()) (\<lambda>_.
     bind_io (res_set ''X-Cache'' ''MISS'') (\<lambda>_.
     bind_io (res_status (fst vroomRes)) (\<lambda>_.
     res_json (snd vroomRes)))))"

definition try_block :: "env \<Rightarrow> json \<Rightarrow> string \<Rightarrow> unit io" where
  "try_block e body key =
     bind_io (redis_get e key) (\<lambda>cached.
       case cached of
         None \<Rightarrow> forward e body key
       | Some text \<Rightarrow>
           if text = [] then forward e body key
           else
             bind_io (res_set ''X-Cache'' ''HIT'') (\<lambda>_.
             bind_io (JSON_parse_io text) (\<lambda>v.
             res_json v)))"

text \<open>
  The \<^verbatim>\<open>catch\<close> block:
  \<^verbatim>\<open>const isAxios = !!(err && err.isAxiosError);
  if (isAxios && err.response) {
    console.error("Upstream error:", ...);
    return res.status(err.response.status).json(
      typeof err.response.data === "object" ? err.response.data
                                            : { error: String(err.response.data) });
  }
  if (isAxios && err.request) {
    console.error("Request error:", err.code || err.message, ...);
    return res.status(502).json({ error: "Bad gateway to VROOM", code: err.code || "EAXIOS" });
  }
  console.error("Error:", err && err.message ? err.message : err);
  res.status(500).json({ error: "Internal server error" });\<close>
  Of each log line the model keeps the label and the first datum (for the upstream error,
  the status of the response).
\<close>

definition catch_block :: "js_error \<Rightarrow> unit io" where
  "catch_block err =
     (let isAxios = isAxiosError err in
      case (if isAxios then err_response err else None) of
        Some (status, data) \<Rightarrow>
          bind_io (console_error ''Upstream error:'' (show_nat status)) (\<lambda>_.
          bind_io (res_status status) (\<lambda>_.
          res_json (if typeof_object data then data
                    else JObj [(''error'', JStr (js_String data))])))
      | None \<Rightarrow>
          if isAxios \<and> err_request err then
            bind_io (console_error ''Request error:''
                       (or_else (err_code err) (err_message err))) (\<lambda>_.
            bind_io (res_status 502) (\<lambda>_.
            res_json (JObj [(''error'', JStr ''Bad gateway to VROOM''),
                            (''code'', JStr (or_else (err_code err) ''EAXIOS''))])))
          else
            bind_io (console_error ''Error:'' (err_message err)) (\<lambda>_.
            bind_io (res_status 500) (\<lambda>_.
            res_json (JObj [(''error'', JStr ''Internal server error'')]))))"

definition post_handler :: "env \<Rightarrow> json \<Rightarrow> unit io" where
  "post_handler e body =
     (let key = makeKey body in try_catch (try_block e body key) catch_block)"

text \<open>One request against a store: the world when the handler has returned.\<close>

definition serve :: "env \<Rightarrow> json \<Rightarrow> store \<Rightarrow> world" where
  "serve e body st =
     snd (post_handler e body \<lparr>cache = st, effects = [], res = fresh_response\<rparr>)"

text \<open>
  The first revision of the handler (the same \<^verbatim>\<open>try\<close> block, but axios is called with its
  default \<^verbatim>\<open>validateStatus\<close>, which accepts 2xx only, and the \<^verbatim>\<open>catch\<close> block answers
  500 to everything).
\<close>

definition forward_v0 :: "env \<Rightarrow> json \<Rightarrow> string \<Rightarrow> unit io" where
  "forward_v0 e body key =
     bind_io (axios_post e ''http://vroom:3000'' body (\<lambda>status. 200 \<le> status \<and> status < 300))
       (\<lambda>vroomRes.
     bind_io (if fst vroomRes = 200
              then redis_setEx e key 3600 (JSON_stringify (snd vroomRes))
              else return_io ()) (\<lambda>_.
     bind_io (res_set ''X-Cache'' ''MISS'') (\<lambda>_.
     bind_io (res_status (fst vroomRes)) (\<lambda>_.
     res_json (snd vroomRes)))))"

definition try_block_v0 :: "env \<Rightarrow> json \<Rightarrow> string \<Rightarrow> unit io" where
  "try_block_v0 e body key =
     bind_io (redis_get e key) (\<lambda>cached.
       case cached of
         None \<Rightarrow> forward_v0 e body key
       | Some text \<Rightarrow>
           if text = [] then forward_v0 e body key
           else
             bind_io (res_set ''X-Cache'' ''HIT'') (\<lambda>_.
             bind_io (JSON_parse_io text) (\<lambda>v.
             res_json v)))"

definition catch_block_v0 :: "js_error \<Rightarrow> unit io" where
  "catch_block_v0 err =
     bind_io (console_error ''Error:'' (err_message err)) (\<lambda>_.
     bind_io (res_status 500) (\<lambda>_.
     res_json (JObj [(''error'', JStr ''Internal server error'')])))"

definition post_handler_v0 :: "env \<Rightarrow> json \<Rightarrow> unit io" where
  "post_handler_v0 e body =
     (let key = makeKey body in try_catch (try_block_v0 e body key) catch_block_v0)"

definition serve_v0 :: "env \<Rightarrow> json \<Rightarrow> store \<Rightarrow> world" where
  "serve_v0 e body st =
     snd (post_handler_v0 e body \<lparr>cache = st, effects = [], res = fresh_response\<rparr>)"

text \<open>What is observed of a served request: the \<^verbatim>\<open>X-Cache\<close> header, whether a request
  was forwarded, whether a cache write was issued.\<close>

definition x_cache :: "world \<Rightarrow> string option" where
  "x_cache w = headers (res w) ''X-Cache''"

definition is_post :: "event \<Rightarrow> bool" where
  "is_post ev = (case ev of HttpPost _ _ \<Rightarrow> True | _ \<Rightarrow> False)"

definition is_write :: "event \<Rightarrow> bool" where
  "is_write ev = (case ev of RedisSetEx _ _ _ \<Rightarrow> True | _ \<Rightarrow> False)"


definition forwarded :: "world \<Rightarrow> bool" where
  "forwarded w = list_ex is_post (effects w)"

definition cache_written :: "world \<Rightarrow> bool" where
  "cache_written w = list_ex is_write (effects w)"

text \<open>The payload of the catch-all 500.\<close>

definition internal_error_body :: json where
  "internal_error_body = JObj [(''error'', JStr ''Internal server error'')]"

section \<open>The health checks: the enhanced \<^verbatim>\<open>/health\<close> endpoint\<close>

text \<open>The outcome of an awaited promise is a sum, \<open>Inl\<close> for a rejection.\<close>

definition await :: "js_error + 'a \<Rightarrow> ('a \<Rightarrow> js_error + 'b) \<Rightarrow> js_error + 'b" where
  "await p k = (case p of Inl e \<Rightarrow> Inl e | Inr a \<Rightarrow> k a)"

definition try_await :: "js_error + 'a \<Rightarrow> (js_error \<Rightarrow> js_error + 'a) \<Rightarrow> js_error + 'a" where
  "try_await p h = (case p of Inl e \<Rightarrow> h e | Inr a \<Rightarrow> Inr a)"

fun promise_all :: "(js_error + 'a) list \<Rightarrow> js_error + 'a list" where
  "promise_all [] = Inr []"
| "promise_all (p # ps) =
     (case p of
        Inl e \<Rightarrow> Inl e
      | Inr a \<Rightarrow> (case promise_all ps of Inl e \<Rightarrow> Inl e | Inr bs \<Rightarrow> Inr (a # bs)))"

text \<open>A probe's result object; the OSRM probes carry no \<^verbatim>\<open>service\<close> field and the Redis
  probe no \<^verbatim>\<open>profile\<close>.\<close>

record probe =
  service :: "string option"
  profile :: "string option"
  url :: string
  status :: nat
  ok :: bool
  message :: string

record report =
  report_ok :: bool
  vroom_profiles :: "probe list"
  redis :: probe
  osrm_profiles :: "probe list"

text \<open>
  What the services do during one health check: the exchange of a GET by its URL, the
  exchange of the test request posted to VROOM by URL and profile (the request is fixed
  but for its profile), and the outcome of \<^verbatim>\<open>redis.ping()\<close>.
\<close>

record services = config +
  osrm_get :: "string \<Rightarrow> exchange"
  vroom_post :: "string \<Rightarrow> string \<Rightarrow> exchange"
  ping :: "js_error + string"

text \<open>
  \<^verbatim>\<open>async function checkOSRMHealth(baseUrl, profile) {
    const testRoute = "77.1025,28.7041;77.1125,28.7141";
    const url = `${baseUrl}/route/v1/driving/${testRoute}`;
    try {
      const response = await axios.get(url, {
        timeout: 5000,
        validateStatus: (status) => status < 500 // Accept 4xx as "reachable"
      });
      return { profile, url: baseUrl, status: response.status, ok: response.status < 400,
               message: response.status < 400 ? "OK" : `HTTP ${response.status}` };
    } catch (error) {
      return { profile, url: baseUrl, status: 0, ok: false,
               message: error.code || error.message || "Connection failed" };
    }
  }\<close>
  \<open>checkVroomHealth\<close> posts its test request in the same way and adds
  \<^verbatim>\<open>service: "vroom"\<close>; \<open>checkRedisHealth\<close> compares the answer of \<^verbatim>\<open>redis.ping()\<close> with
  \<^verbatim>\<open>"PONG"\<close>. The endpoint awaits all five with \<^verbatim>\<open>Promise.all\<close> and reports
  \<^verbatim>\<open>[...osrmChecks, ...vroomChecks, redisCheck].every(check => check.ok)\<close>.
\<close>

definition testRoute :: string where
  "testRoute = ''77.1025,28.7041;77.1125,28.7141''"

definition route_url :: "string \<Rightarrow> string" where
  "route_url baseUrl = baseUrl @ ''/route/v1/driving/'' @ testRoute"

definition checkOSRMHealth :: "services \<Rightarrow> string \<Rightarrow> string \<Rightarrow> js_error + probe" where
  "checkOSRMHealth h baseUrl prof =
     try_await
       (await (settle (\<lambda>status. status < 500) (osrm_get h (route_url baseUrl))) (\<lambda>response.
          Inr \<lparr>service = None, profile = Some prof, url = baseUrl,
               status = fst response,
               ok = (fst response < 400),
               message = (if fst response < 400 then ''OK''
                          else ''HTTP '' @ show_nat (fst response))\<rparr>))
       (\<lambda>error.
          Inr \<lparr>service = None, profile = Some prof, url = baseUrl,
               status = 0,
               ok = False,
               message = or_else (err_code error)
                           (or_else (Some (err_message error)) ''Connection failed'')\<rparr>)"

definition checkVroomHealth :: "services \<Rightarrow> string \<Rightarrow> string \<Rightarrow> js_error + probe" where
  "checkVroomHealth h baseUrl prof =
     try_await
       (await (settle (\<lambda>status. status < 500) (vroom_post h baseUrl prof)) (\<lambda>response.
          Inr \<lparr>service = Some ''vroom'', profile = Some prof, url = baseUrl,
               status = fst response,
               ok = (fst response < 400),
               message = (if fst response < 400 then ''OK''
                          else ''HTTP '' @ show_nat (fst response))\<rparr>))
       (\<lambda>error.
          Inr \<lparr>service = Some ''vroom'', profile = Some prof, url = baseUrl,
               status = 0,
               ok = False,
               message = or_else (err_code error)
                           (or_else (Some (err_message error)) ''Connection failed'')\<rparr>)"

definition checkRedisHealth :: "services \<Rightarrow> js_error + probe" where
  "checkRedisHealth h =
     try_await
       (await (ping h) (\<lambda>pong.
          Inr \<lparr>service = Some ''redis'', profile = None, url = REDIS_URL h,
               status = 200,
               ok = (pong = ''PONG''),
               message = (if pong = ''PONG'' then ''OK'' else ''Unexpected ping response'')\<rparr>))
       (\<lambda>error.
          Inr \<lparr>service = Some ''redis'', profile = None, url = REDIS_URL h,
               status = 0,
               ok = False,
               message = or_else (Some (err_message error)) ''Connection failed''\<rparr>)"

definition health :: "services \<Rightarrow> js_error + report" where
  "health h =
     await (promise_all
              [checkOSRMHealth h ''http://osrm-motorbike:5000'' ''motorbike'',
               checkOSRMHealth h ''http://osrm-small-truck:5000'' ''smalltruck'']) (\<lambda>osrmChecks.
     await (promise_all
              [checkVroomHealth h (VROOM_URL h) ''motorbike'',
               checkVroomHealth h (VROOM_URL h) ''smalltruck'']) (\<lambda>vroomChecks.
     await (checkRedisHealth h) (\<lambda>redisCheck.
       let allHealthy = list_all ok (osrmChecks @ vroomChecks @ [redisCheck])
       in Inr \<lparr>report_ok = allHealthy, vroom_profiles = vroomChecks, redis = redisCheck,
               osrm_profiles = osrmChecks\<rparr>)))"

section \<open>Sample requests\<close>

text \<open>The request and the response of the specification's example, and an environment
  given by the time, the faults of the store and the upstream exchange.\<close>

definition sample_body :: json where
  "sample_body =
     JObj [(''jobs'', JArr [JObj [(''id'', JNum 1), (''location'', JArr [JNum 0, JNum 0])]]),
           (''vehicles'', JArr [JObj [(''id'', JNum 1), (''start'', JArr [JNum 0, JNum 0])]])]"

definition sample_routes :: json where
  "sample_routes = JObj [(''code'', JNum 0), (''routes'', JArr [])]"

definition sample_env :: "nat \<Rightarrow> string option \<Rightarrow> string option \<Rightarrow> exchange \<Rightarrow> env" where
  "sample_env t gf sf x =
     \<lparr>VROOM_URL = ''http://vroom:3000'', REDIS_URL = ''redis://redis:6379'', now = t,
      get_fault = gf, setEx_fault = sf, upstream = x\<rparr>"

text \<open>Services that all give the same exchange, and a given answer to the ping.\<close>

definition sample_services :: "exchange \<Rightarrow> js_error + string \<Rightarrow> services" where
  "sample_services x pong =
     \<lparr>VROOM_URL = ''http://vroom:3000'', REDIS_URL = ''redis://redis:6379'',
      osrm_get = (\<lambda>u. x), vroom_post = (\<lambda>u p. x), ping = pong\<rparr>"

section \<open>Properties of the key\<close>








lemma md5_hex_empty: "md5_hex [] = ''d41d8cd98f00b204e9800998ecf8427e''"
  by code_simp

text \<open>The key of a small body, as Node computes it.\<close>

lemma makeKey_example:
  "makeKey (JObj [(''jobs'', JArr [])]) = ''vroom:8c4fe5d08cb191037e5135f91df1a6cd''"
  by code_simp



section \<open>\<^verbatim>\<open>JSON.parse\<close> inverts \<^verbatim>\<open>JSON.stringify\<close>\<close>

subsection \<open>Numbers\<close>

lemma hex_val_hex_digit: "k < 16 \<Longrightarrow> hex_val (hex_digit k) = Some k"
proof -
  assume "k < 16"
  then have "k \<in> set [0..<16]" by simp
  moreover have "\<forall>k \<in> set [0..<16]. hex_val (hex_digit k) = Some k"
    by code_simp
  ultimately show ?thesis by blast
qed

















subsection \<open>String literals\<close>

lemma hex4_control:
  assumes "n < 32"
  shows "hex4 (CHR ''0'') (CHR ''0'') (hex_digit (n div 16)) (hex_digit n) = Some n"
proof -
  have a: "hex_val (hex_digit (n div 16)) = Some (n div 16)"
    using assms by (intro hex_val_hex_digit) simp
  have "hex_digit n = hex_digit (n mod 16)"
    by (simp add: hex_digit_def)
  then have b: "hex_val (hex_digit n) = Some (n mod 16)"
    by (simp add: hex_val_hex_digit)
  have z: "hex_val (CHR ''0'') = Some 0"
    by (simp add: hex_val_def)
  show ?thesis
    by (simp add: hex4_def a b z)
qed

lemma utf8_ascii: "(of_char c :: nat) < 128 \<Longrightarrow> utf8 (of_char c) = [c]"
  by (simp add: utf8_def)

lemma parse_chars_escape:
  assumes "e \<noteq> CHR ''u''" and "unescape e = Some ch" and "parse_chars t = Some (s, r)"
  shows "parse_chars (bslash # e # t) = Some (ch # s, r)"
  using assms by (simp add: dquote_def bslash_def)

lemma parse_chars_control:
  assumes "(of_char c :: nat) < 32" and "parse_chars t = Some (s, r)"
  shows "parse_chars ([bslash, CHR ''u'', CHR ''0'', CHR ''0'',
           hex_digit (of_char c div 16), hex_digit (of_char c)] @ t) = Some (c # s, r)"
  using assms hex4_control [OF assms(1)] utf8_ascii [of c]
  by (simp add: dquote_def bslash_def)

lemma parse_chars_plain:
  assumes "c \<noteq> dquote" and "c \<noteq> bslash" and "\<not> (of_char c :: nat) < 32"
    and "parse_chars t = Some (s, r)"
  shows "parse_chars (c # t) = Some (c # s, r)"
  using assms by simp

lemma parse_chars_quote_char:
  assumes "parse_chars t = Some (s, r)"
  shows "parse_chars (quote_char c @ t) = Some (c # s, r)"
proof -
  consider "c = dquote" | "c = bslash" | "c = CHR 0x08" | "c = CHR 0x0C" | "c = CHR 0x0A"
    | "c = CHR 0x0D" | "c = CHR 0x09"
    | "c \<noteq> dquote" "c \<noteq> bslash" "c \<noteq> CHR 0x08" "c \<noteq> CHR 0x0C" "c \<noteq> CHR 0x0A"
      "c \<noteq> CHR 0x0D" "c \<noteq> CHR 0x09" "(of_char c :: nat) < 32"
    | "c \<noteq> dquote" "c \<noteq> bslash" "\<not> (of_char c :: nat) < 32"
    by blast
  then show ?thesis
  proof cases
    case 1
    have "parse_chars (bslash # dquote # t) = Some (dquote # s, r)"
      by (rule parse_chars_escape) (simp_all add: unescape_def dquote_def assms)
    with 1 show ?thesis by (simp add: quote_char_def)
  next
    case 2
    have "parse_chars (bslash # bslash # t) = Some (bslash # s, r)"
      by (rule parse_chars_escape) (simp_all add: unescape_def dquote_def bslash_def assms)
    with 2 show ?thesis by (simp add: quote_char_def dquote_def bslash_def)
  next
    case 3
    have "parse_chars (bslash # CHR ''b'' # t) = Some (CHR 0x08 # s, r)"
      by (rule parse_chars_escape) (simp_all add: unescape_def dquote_def bslash_def assms)
    with 3 show ?thesis by (simp add: quote_char_def dquote_def bslash_def)
  next
    case 4
    have "parse_chars (bslash # CHR ''f'' # t) = Some (CHR 0x0C # s, r)"
      by (rule parse_chars_escape) (simp_all add: unescape_def dquote_def bslash_def assms)
    with 4 show ?thesis by (simp add: quote_char_def dquote_def bslash_def)
  next
    case 5
    have "parse_chars (bslash # CHR ''n'' # t) = Some (CHR 0x0A # s, r)"
      by (rule parse_chars_escape) (simp_all add: unescape_def dquote_def bslash_def assms)
    with 5 show ?thesis by (simp add: quote_char_def dquote_def bslash_def)
  next
    case 6
    have "parse_chars (bslash # CHR ''r'' # t) = Some (CHR 0x0D # s, r)"
      by (rule parse_chars_escape) (simp_all add: unescape_def dquote_def bslash_def assms)
    with 6 show ?thesis by (simp add: quote_char_def dquote_def bslash_def)
  next
    case 7
    have "parse_chars (bslash # CHR ''t'' # t) = Some (CHR 0x09 # s, r)"
      by (rule parse_chars_escape) (simp_all add: unescape_def dquote_def bslash_def assms)
    with 7 show ?thesis by (simp add: quote_char_def dquote_def bslash_def)
  next
    case 8
    then have "quote_char c = [bslash, CHR ''u'', CHR ''0'', CHR ''0'',
           hex_digit (of_char c div 16), hex_digit (of_char c)]"
      by (simp add: quote_char_def)
    with 8 assms show ?thesis
      using parse_chars_control [of c t s r] by simp
  next
    case 9
    then have "quote_char c = [c]"
      by (auto simp add: quote_char_def)
    with 9 assms show ?thesis
      using parse_chars_plain [of c t s r] by simp
  qed
qed

lemma parse_chars_body:
  "parse_chars (concat (map quote_char s) @ dquote # rest) = Some (s, rest)"
proof (induction s)
  case Nil
  show ?case by simp
next
  case (Cons c s)
  then show ?case
    using parse_chars_quote_char [of "concat (map quote_char s) @ dquote # rest" s rest c]
    by simp
qed

lemma parse_chars_quote:
  "\<exists>body. quote s = dquote # body \<and> parse_chars (body @ rest) = Some (s, rest)"
  by (simp add: quote_def parse_chars_body)

subsection \<open>Arrays and objects\<close>

lemma skip_ws_solid: "\<not> is_ws c \<Longrightarrow> skip_ws (c # cs) = c # cs"
  by (simp add: skip_ws_def)












subsection \<open>Values\<close>








section \<open>What one request does, case by case\<close>

lemma sample_env_simps [simp]:
  "VROOM_URL (sample_env t gf sf x) = ''http://vroom:3000''"
  "now (sample_env t gf sf x) = t"
  "get_fault (sample_env t gf sf x) = gf"
  "setEx_fault (sample_env t gf sf x) = sf"
  "upstream (sample_env t gf sf x) = x"
  by (simp_all add: sample_env_def)

lemma lookup_empty [simp]: "lookup Map.empty t k = None"
  by (simp add: lookup_def)

lemma lookup_upd_same [simp]:
  "lookup (st(k \<mapsto> (v, ex))) t k = (if t < ex then Some v else None)"
  by (simp add: lookup_def)

lemma truthy_simps [simp]: "\<not> truthy None" "truthy (Some v) = (v \<noteq> [])"
  by (simp_all add: truthy_def)

lemma lookup_later:
  assumes "\<not> truthy (lookup st t k)" and "t \<le> t'"
  shows "\<not> truthy (lookup st t' k)"
  using assms by (auto simp: lookup_def truthy_def split: option.splits if_splits)

lemmas io_defs = serve_def post_handler_def try_block_def forward_def catch_block_def
  try_catch_def bind_io_def return_io_def redis_get_def redis_setEx_def axios_post_def
  JSON_parse_io_def res_set_def res_status_def res_json_def console_error_def emit_def
  settle_def plain_error_def fresh_response_def Let_def

lemma serve_get_fault:
  assumes "get_fault e = Some msg"
  shows "serve e body st =
    \<lparr>cache = st,
     effects = [RedisGet (makeKey body), ConsoleError ''Error:'' msg],
     res = \<lparr>statusCode = 500, headers = Map.empty, sent = Some internal_error_body\<rparr>\<rparr>"
  using assms by (simp add: io_defs internal_error_body_def)

lemma serve_miss_responds:
  assumes "get_fault e = None" "\<not> truthy (lookup st (now e) (makeKey body))"
    "upstream e = Responds s d" "s \<noteq> 200"
  shows "serve e body st =
    \<lparr>cache = st,
     effects = [RedisGet (makeKey body), HttpPost (VROOM_URL e) body],
     res = \<lparr>statusCode = s, headers = [''X-Cache'' \<mapsto> ''MISS''], sent = Some d\<rparr>\<rparr>"
  using assms by (auto simp add: io_defs truthy_def split: option.splits)

lemma serve_miss_200:
  assumes "get_fault e = None" "\<not> truthy (lookup st (now e) (makeKey body))"
    "upstream e = Responds 200 d" "setEx_fault e = None"
  shows "serve e body st =
    \<lparr>cache = st(makeKey body \<mapsto> (JSON_stringify d, now e + 3600)),
     effects = [RedisGet (makeKey body), HttpPost (VROOM_URL e) body,
                RedisSetEx (makeKey body) 3600 (JSON_stringify d)],
     res = \<lparr>statusCode = 200, headers = [''X-Cache'' \<mapsto> ''MISS''], sent = Some d\<rparr>\<rparr>"
  using assms by (auto simp add: io_defs truthy_def split: option.splits)

lemma serve_miss_200_fault:
  assumes "get_fault e = None" "\<not> truthy (lookup st (now e) (makeKey body))"
    "upstream e = Responds 200 d" "setEx_fault e = Some msg"
  shows "serve e body st =
    \<lparr>cache = st,
     effects = [RedisGet (makeKey body), HttpPost (VROOM_URL e) body,
                RedisSetEx (makeKey body) 3600 (JSON_stringify d), ConsoleError ''Error:'' msg],
     res = \<lparr>statusCode = 500, headers = Map.empty, sent = Some internal_error_body\<rparr>\<rparr>"
  using assms by (auto simp add: io_defs truthy_def internal_error_body_def split: option.splits)

lemma serve_miss_rejects:
  assumes "get_fault e = None" "\<not> truthy (lookup st (now e) (makeKey body))"
    "upstream e = Rejects err"
  shows "serve e body st =
    snd (catch_block err \<lparr>cache = st,
     effects = [RedisGet (makeKey body), HttpPost (VROOM_URL e) body],
     res = fresh_response\<rparr>)"
  using assms by (auto simp add: serve_def post_handler_def try_block_def forward_def
  try_catch_def bind_io_def return_io_def redis_get_def redis_setEx_def axios_post_def
  emit_def settle_def truthy_def Let_def split: option.splits prod.splits sum.splits)


section \<open>The write-back policy\<close>

text \<open>
  C1. A request that misses the cache and gets an upstream response issues a cache write
  if and only if the status is 200, and then it is \<^verbatim>\<open>setEx(key, 3600, serialized data)\<close>;
  when the store accepts the write the entry expires 3600 seconds later. For any other
  status the store is left as it was, so a later identical request that gets an upstream
  response is forwarded again and tagged \<^verbatim>\<open>MISS\<close>.
\<close>

theorem write_back_only_on_200:
  assumes "get_fault e = None"
    and "\<not> truthy (lookup st (now e) (makeKey body))"
    and "upstream e = Responds s d"
  shows "filter is_write (effects (serve e body st)) =
           (if s = 200 then [RedisSetEx (makeKey body) 3600 (JSON_stringify d)] else [])
    \<and> (cache_written (serve e body st) \<longleftrightarrow> s = 200)
    \<and> (s = 200 \<and> setEx_fault e = None \<longrightarrow>
          cache (serve e body st) = st(makeKey body \<mapsto> (JSON_stringify d, now e + 3600)))
    \<and> (s \<noteq> 200 \<longrightarrow> cache (serve e body st) = st)
    \<and> (s \<noteq> 200 \<and> get_fault e2 = None \<and> now e \<le> now e2 \<and> upstream e2 = Responds s2 d2
          \<and> (s2 = 200 \<longrightarrow> setEx_fault e2 = None) \<longrightarrow>
          forwarded (serve e2 body (cache (serve e body st)))
          \<and> x_cache (serve e2 body (cache (serve e body st))) = Some ''MISS'')"
proof (cases "s = 200")
  case True
  show ?thesis
  proof (cases "setEx_fault e")
    case None
    with True assms show ?thesis
      by (simp add: serve_miss_200 cache_written_def is_write_def)
  next
    case (Some msg)
    with True assms show ?thesis
      by (simp add: serve_miss_200_fault cache_written_def is_write_def)
  qed
next
  case False
  note first = serve_miss_responds [OF assms False]
  have second: "forwarded (serve e2 body st) \<and> x_cache (serve e2 body st) = Some ''MISS''"
    if h: "get_fault e2 = None" "now e \<le> now e2" "upstream e2 = Responds s2 d2"
      "s2 = 200 \<longrightarrow> setEx_fault e2 = None"
  proof -
    have miss2: "\<not> truthy (lookup st (now e2) (makeKey body))"
      using assms(2) h(2) by (rule lookup_later)
    show ?thesis
    proof (cases "s2 = 200")
      case True
      with h miss2 show ?thesis
        by (simp add: serve_miss_200 forwarded_def is_post_def x_cache_def)
    next
      case False
      with h miss2 show ?thesis
        by (simp add: serve_miss_responds forwarded_def is_post_def x_cache_def)
    qed
  qed
  from False first second show ?thesis
    by (simp add: cache_written_def is_write_def)
qed

theorem write_back_only_on_200_witness:
  "get_fault (sample_env 10 None None (Responds 404 JNull)) = None
   \<and> \<not> truthy (lookup Map.empty (now (sample_env 10 None None (Responds 404 JNull)))
                  (makeKey sample_body))
   \<and> upstream (sample_env 10 None None (Responds 404 JNull)) = Responds 404 JNull
   \<and> \<not> cache_written (serve (sample_env 10 None None (Responds 404 JNull)) sample_body Map.empty)
   \<and> cache (serve (sample_env 10 None None (Responds 404 JNull)) sample_body Map.empty) = Map.empty
   \<and> forwarded (serve (sample_env 11 None None (Responds 200 sample_routes)) sample_body
        (cache (serve (sample_env 10 None None (Responds 404 JNull)) sample_body Map.empty)))
   \<and> x_cache (serve (sample_env 11 None None (Responds 200 sample_routes)) sample_body
        (cache (serve (sample_env 10 None None (Responds 404 JNull)) sample_body Map.empty)))
       = Some ''MISS''"
proof -
  have h1: "get_fault (sample_env 10 None None (Responds 404 JNull)) = None"
    by simp
  have h2: "\<not> truthy (lookup Map.empty (now (sample_env 10 None None (Responds 404 JNull)))
                  (makeKey sample_body))"
    by simp
  have h3: "upstream (sample_env 10 None None (Responds 404 JNull)) = Responds 404 JNull"
    by simp
  have h4: "(404::nat) \<noteq> 200"
    by simp
  have h5: "get_fault (sample_env 11 None None (Responds 200 sample_routes)) = None"
    by simp
  have h6: "now (sample_env 10 None None (Responds 404 JNull))
            \<le> now (sample_env 11 None None (Responds 200 sample_routes))"
    by simp
  have h7: "upstream (sample_env 11 None None (Responds 200 sample_routes))
            = Responds 200 sample_routes"
    by simp
  have h8: "setEx_fault (sample_env 11 None None (Responds 200 sample_routes)) = None"
    by simp
  from write_back_only_on_200 [OF h1 h2 h3,
      of "sample_env 11 None None (Responds 200 sample_routes)" 200 sample_routes]
    h1 h2 h3 h4 h5 h6 h7 h8
  show ?thesis
    by blast
qed

section \<open>Failures of the store\<close>

text \<open>
  C3 (as amended). When the cache read fails, the handler does not fall back to the
  upstream: the error reaches the catch-all branch, which logs it and answers 500 with the
  generic payload. No request is forwarded, no \<^verbatim>\<open>X-Cache\<close> header is set and the store is
  untouched.
\<close>

theorem read_failure_is_500:
  assumes "get_fault e = Some msg"
  shows "statusCode (res (serve e body st)) = 500
    \<and> sent (res (serve e body st)) = Some internal_error_body
    \<and> x_cache (serve e body st) = None
    \<and> \<not> forwarded (serve e body st)
    \<and> \<not> cache_written (serve e body st)
    \<and> cache (serve e body st) = st
    \<and> effects (serve e body st) = [RedisGet (makeKey body), ConsoleError ''Error:'' msg]"
  using assms
  by (simp add: serve_get_fault x_cache_def forwarded_def cache_written_def is_post_def
      is_write_def)

theorem read_failure_is_500_witness:
  "get_fault (sample_env 0 (Some ''ECONNREFUSED'') None (Responds 200 sample_routes))
     = Some ''ECONNREFUSED''
   \<and> statusCode (res (serve (sample_env 0 (Some ''ECONNREFUSED'') None
        (Responds 200 sample_routes)) sample_body Map.empty)) = 500
   \<and> \<not> forwarded (serve (sample_env 0 (Some ''ECONNREFUSED'') None
        (Responds 200 sample_routes)) sample_body Map.empty)"
proof -
  have h: "get_fault (sample_env 0 (Some ''ECONNREFUSED'') None (Responds 200 sample_routes))
     = Some ''ECONNREFUSED''"
    by simp
  from read_failure_is_500 [OF h, of sample_body Map.empty] h show ?thesis
    by blast
qed

text \<open>
  C3 as stated fails: with the store refusing the read and an upstream that would answer
  200, the request is not forwarded, is not tagged \<^verbatim>\<open>MISS\<close>, and the client gets a 500
  instead of the upstream's body.
\<close>

theorem read_failure_not_a_miss:
  "get_fault (sample_env 0 (Some ''ECONNREFUSED'') None (Responds 200 sample_routes))
     = Some ''ECONNREFUSED''
   \<and> upstream (sample_env 0 (Some ''ECONNREFUSED'') None (Responds 200 sample_routes))
     = Responds 200 sample_routes
   \<and> \<not> forwarded (serve (sample_env 0 (Some ''ECONNREFUSED'') None
        (Responds 200 sample_routes)) sample_body Map.empty)
   \<and> x_cache (serve (sample_env 0 (Some ''ECONNREFUSED'') None
        (Responds 200 sample_routes)) sample_body Map.empty) \<noteq> Some ''MISS''
   \<and> statusCode (res (serve (sample_env 0 (Some ''ECONNREFUSED'') None
        (Responds 200 sample_routes)) sample_body Map.empty)) = 500
   \<and> sent (res (serve (sample_env 0 (Some ''ECONNREFUSED'') None
        (Responds 200 sample_routes)) sample_body Map.empty)) \<noteq> Some sample_routes"
  by (simp add: serve_get_fault x_cache_def forwarded_def is_post_def
      internal_error_body_def sample_routes_def)

text \<open>
  C4 (as amended). When the upstream answered 200 and the cache write fails, the failure
  is logged, but it is not absorbed: the client gets the catch-all 500 with the generic
  payload and no \<^verbatim>\<open>X-Cache\<close> header. The store is unchanged.
\<close>

theorem write_failure_is_500:
  assumes "get_fault e = None"
    and "\<not> truthy (lookup st (now e) (makeKey body))"
    and "upstream e = Responds 200 d"
    and "setEx_fault e = Some msg"
  shows "ConsoleError ''Error:'' msg \<in> set (effects (serve e body st))
    \<and> statusCode (res (serve e body st)) = 500
    \<and> sent (res (serve e body st)) = Some internal_error_body
    \<and> x_cache (serve e body st) = None
    \<and> cache (serve e body st) = st"
  using assms by (simp add: serve_miss_200_fault x_cache_def)

theorem write_failure_is_500_witness:
  "get_fault (sample_env 0 None (Some ''ECONNRESET'') (Responds 200 sample_routes)) = None
   \<and> \<not> truthy (lookup Map.empty
         (now (sample_env 0 None (Some ''ECONNRESET'') (Responds 200 sample_routes)))
         (makeKey sample_body))
   \<and> upstream (sample_env 0 None (Some ''ECONNRESET'') (Responds 200 sample_routes))
       = Responds 200 sample_routes
   \<and> setEx_fault (sample_env 0 None (Some ''ECONNRESET'') (Responds 200 sample_routes))
       = Some ''ECONNRESET''
   \<and> ConsoleError ''Error:'' ''ECONNRESET'' \<in> set (effects (serve
         (sample_env 0 None (Some ''ECONNRESET'') (Responds 200 sample_routes))
         sample_body Map.empty))
   \<and> statusCode (res (serve (sample_env 0 None (Some ''ECONNRESET'')
         (Responds 200 sample_routes)) sample_body Map.empty)) = 500"
proof -
  have h1: "get_fault (sample_env 0 None (Some ''ECONNRESET'') (Responds 200 sample_routes))
      = None"
    by simp
  have h2: "\<not> truthy (lookup Map.empty
         (now (sample_env 0 None (Some ''ECONNRESET'') (Responds 200 sample_routes)))
         (makeKey sample_body))"
    by simp
  have h3: "upstream (sample_env 0 None (Some ''ECONNRESET'') (Responds 200 sample_routes))
       = Responds 200 sample_routes"
    by simp
  have h4: "setEx_fault (sample_env 0 None (Some ''ECONNRESET'') (Responds 200 sample_routes))
       = Some ''ECONNRESET''"
    by simp
  from write_failure_is_500 [OF h1 h2 h3 h4] h1 h2 h3 h4 show ?thesis
    by blast
qed

text \<open>
  C4 as stated fails: the upstream answered 200 with a body, the write was refused, and
  the client received status 500 and not the upstream's body.
\<close>

theorem write_failure_not_absorbed:
  "upstream (sample_env 0 None (Some ''ECONNRESET'') (Responds 200 sample_routes))
       = Responds 200 sample_routes
   \<and> setEx_fault (sample_env 0 None (Some ''ECONNRESET'') (Responds 200 sample_routes))
       = Some ''ECONNRESET''
   \<and> statusCode (res (serve (sample_env 0 None (Some ''ECONNRESET'')
         (Responds 200 sample_routes)) sample_body Map.empty)) = 500
   \<and> sent (res (serve (sample_env 0 None (Some ''ECONNRESET'')
         (Responds 200 sample_routes)) sample_body Map.empty)) \<noteq> Some sample_routes"
  by (simp add: serve_miss_200_fault internal_error_body_def sample_routes_def)

section \<open>Passing the upstream response through\<close>

text \<open>
  C5 (as amended). On a cache miss where the upstream responded with any status and body,
  and where the cache write that a 200 triggers is not refused, the client gets exactly
  that status and that body, tagged \<^verbatim>\<open>MISS\<close>.
\<close>

theorem passthrough_on_miss:
  assumes "get_fault e = None"
    and "\<not> truthy (lookup st (now e) (makeKey body))"
    and "upstream e = Responds s d"
    and "s = 200 \<longrightarrow> setEx_fault e = None"
  shows "statusCode (res (serve e body st)) = s
    \<and> sent (res (serve e body st)) = Some d
    \<and> x_cache (serve e body st) = Some ''MISS''"
proof (cases "s = 200")
  case True
  with assms show ?thesis
    by (simp add: serve_miss_200 x_cache_def)
next
  case False
  with assms show ?thesis
    by (simp add: serve_miss_responds x_cache_def)
qed

theorem passthrough_on_miss_witness:
  "get_fault (sample_env 5 None None (Responds 503 (JStr ''busy''))) = None
   \<and> \<not> truthy (lookup Map.empty (now (sample_env 5 None None (Responds 503 (JStr ''busy''))))
         (makeKey sample_body))
   \<and> upstream (sample_env 5 None None (Responds 503 (JStr ''busy'')))
       = Responds 503 (JStr ''busy'')
   \<and> statusCode (res (serve (sample_env 5 None None (Responds 503 (JStr ''busy'')))
         sample_body Map.empty)) = 503
   \<and> sent (res (serve (sample_env 5 None None (Responds 503 (JStr ''busy'')))
         sample_body Map.empty)) = Some (JStr ''busy'')
   \<and> x_cache (serve (sample_env 5 None None (Responds 503 (JStr ''busy'')))
         sample_body Map.empty) = Some ''MISS''"
proof -
  have h1: "get_fault (sample_env 5 None None (Responds 503 (JStr ''busy''))) = None"
    by simp
  have h2: "\<not> truthy (lookup Map.empty
         (now (sample_env 5 None None (Responds 503 (JStr ''busy'')))) (makeKey sample_body))"
    by simp
  have h3: "upstream (sample_env 5 None None (Responds 503 (JStr ''busy'')))
       = Responds 503 (JStr ''busy'')"
    by simp
  have h4: "(503::nat) = 200 \<longrightarrow>
      setEx_fault (sample_env 5 None None (Responds 503 (JStr ''busy''))) = None"
    by simp
  from passthrough_on_miss [OF h1 h2 h3 h4] h1 h2 h3 show ?thesis
    by blast
qed

text \<open>
  C5 as stated fails: a miss, an upstream response of 200, a refused cache write, and the
  client's status, body and tag are not the upstream's.
\<close>

theorem passthrough_fails_on_write_fault:
  "get_fault (sample_env 0 None (Some ''ECONNRESET'') (Responds 200 sample_routes)) = None
   \<and> lookup Map.empty (now (sample_env 0 None (Some ''ECONNRESET'')
        (Responds 200 sample_routes))) (makeKey sample_body) = None
   \<and> upstream (sample_env 0 None (Some ''ECONNRESET'') (Responds 200 sample_routes))
       = Responds 200 sample_routes
   \<and> statusCode (res (serve (sample_env 0 None (Some ''ECONNRESET'')
         (Responds 200 sample_routes)) sample_body Map.empty)) \<noteq> 200
   \<and> sent (res (serve (sample_env 0 None (Some ''ECONNRESET'')
         (Responds 200 sample_routes)) sample_body Map.empty)) \<noteq> Some sample_routes
   \<and> x_cache (serve (sample_env 0 None (Some ''ECONNRESET'')
         (Responds 200 sample_routes)) sample_body Map.empty) \<noteq> Some ''MISS''"
  by (simp add: serve_miss_200_fault internal_error_body_def sample_routes_def x_cache_def)


section \<open>Transport failures\<close>

lemma or_else_nonempty: "d \<noteq> [] \<Longrightarrow> or_else x d \<noteq> []"
  by (simp add: or_else_def split: option.splits)

text \<open>
  C6. On a cache miss where the upstream never responded (axios rejects with an error that
  has the request and no response: connection refused, DNS failure, timeout), the client
  gets 502 with the payload \<^verbatim>\<open>{error, code}\<close>, whose code is the error's code or
  \<^verbatim>\<open>EAXIOS\<close> and is never empty; no cache write is issued and the store is unchanged.
\<close>

theorem transport_failure_is_502:
  assumes "get_fault e = None"
    and "\<not> truthy (lookup st (now e) (makeKey body))"
    and "upstream e = Rejects err"
    and "isAxiosError err" and "err_request err" and "err_response err = None"
  shows "statusCode (res (serve e body st)) = 502
    \<and> sent (res (serve e body st)) =
        Some (JObj [(''error'', JStr ''Bad gateway to VROOM''),
                    (''code'', JStr (or_else (err_code err) ''EAXIOS''))])
    \<and> or_else (err_code err) ''EAXIOS'' \<noteq> []
    \<and> \<not> cache_written (serve e body st)
    \<and> cache (serve e body st) = st"
  using assms
  by (simp add: serve_miss_rejects catch_block_def bind_io_def console_error_def
      res_status_def res_json_def emit_def fresh_response_def cache_written_def is_write_def
      or_else_nonempty)

theorem transport_failure_is_502_witness:
  "get_fault (sample_env 0 None None (transport_failure (Some ''ECONNREFUSED'') ''connect''))
     = None
   \<and> \<not> truthy (lookup Map.empty
        (now (sample_env 0 None None (transport_failure (Some ''ECONNREFUSED'') ''connect'')))
        (makeKey sample_body))
   \<and> upstream (sample_env 0 None None (transport_failure (Some ''ECONNREFUSED'') ''connect''))
     = Rejects \<lparr>isAxiosError = True, err_code = Some ''ECONNREFUSED'',
                err_message = ''connect'', err_request = True, err_response = None\<rparr>
   \<and> statusCode (res (serve
        (sample_env 0 None None (transport_failure (Some ''ECONNREFUSED'') ''connect''))
        sample_body Map.empty)) = 502
   \<and> sent (res (serve
        (sample_env 0 None None (transport_failure (Some ''ECONNREFUSED'') ''connect''))
        sample_body Map.empty)) =
        Some (JObj [(''error'', JStr ''Bad gateway to VROOM''), (''code'', JStr ''ECONNREFUSED'')])
   \<and> \<not> cache_written (serve
        (sample_env 0 None None (transport_failure (Some ''ECONNREFUSED'') ''connect''))
        sample_body Map.empty)"
proof -
  let ?e = "sample_env 0 None None (transport_failure (Some ''ECONNREFUSED'') ''connect'')"
  let ?err = "\<lparr>isAxiosError = True, err_code = Some ''ECONNREFUSED'',
                err_message = ''connect'', err_request = True, err_response = None\<rparr>"
  have h1: "get_fault ?e = None"
    by simp
  have h2: "\<not> truthy (lookup Map.empty (now ?e) (makeKey sample_body))"
    by simp
  have h3: "upstream ?e = Rejects ?err"
    by (simp add: transport_failure_def)
  have h4: "isAxiosError ?err" and h5: "err_request ?err" and h6: "err_response ?err = None"
    by simp_all
  have c: "or_else (err_code ?err) ''EAXIOS'' = ''ECONNREFUSED''"
    by (simp add: or_else_def)
  from transport_failure_is_502 [OF h1 h2 h3 h4 h5 h6] h1 h2 h3 show ?thesis
    unfolding c by blast
qed

section \<open>Cache hits\<close>





section \<open>A cached response is replayed\<close>



section \<open>The health probes\<close>

lemma show_nat_nonempty: "show_nat n \<noteq> []"
  by (subst show_nat.simps) simp

lemma or_else_nonempty2 [simp]: "d \<noteq> [] \<Longrightarrow> or_else x d \<noteq> []"
  by (simp add: or_else_def split: option.splits)

lemmas probe_defs = checkOSRMHealth_def checkVroomHealth_def checkRedisHealth_def
  try_await_def await_def settle_def

lemma checkOSRMHealth_resolves: "\<exists>p. checkOSRMHealth h baseUrl prof = Inr p"
  by (simp add: probe_defs split: exchange.splits sum.splits)

lemma checkVroomHealth_resolves: "\<exists>p. checkVroomHealth h baseUrl prof = Inr p"
  by (simp add: probe_defs split: exchange.splits sum.splits)

lemma checkRedisHealth_resolves: "\<exists>p. checkRedisHealth h = Inr p"
  by (simp add: probe_defs split: sum.splits)

lemma health_resolves: "\<exists>r. health h = Inr r"
proof -
  obtain o1 where o1: "checkOSRMHealth h ''http://osrm-motorbike:5000'' ''motorbike'' = Inr o1"
    using checkOSRMHealth_resolves by blast
  obtain o2 where o2: "checkOSRMHealth h ''http://osrm-small-truck:5000'' ''smalltruck'' = Inr o2"
    using checkOSRMHealth_resolves by blast
  obtain v1 where v1: "checkVroomHealth h (VROOM_URL h) ''motorbike'' = Inr v1"
    using checkVroomHealth_resolves by blast
  obtain v2 where v2: "checkVroomHealth h (VROOM_URL h) ''smalltruck'' = Inr v2"
    using checkVroomHealth_resolves by blast
  obtain rc where rc: "checkRedisHealth h = Inr rc"
    using checkRedisHealth_resolves by blast
  show ?thesis
    by (simp add: health_def await_def o1 o2 v1 v2 rc)
qed

text \<open>
  C8 (as amended). A probe of a routing backend or of an optimizer profile reports a
  response with status below 400 as \<^verbatim>\<open>ok\<close> with that status, and a response with status
  400 to 499 as not \<^verbatim>\<open>ok\<close> with that status. A response with status 500 or more is
  refused by \<^verbatim>\<open>validateStatus\<close> and is reported like a transport error: status 0, not
  \<^verbatim>\<open>ok\<close>, with the error's code or message. No probe rejects, and the health endpoint
  always produces its report.
\<close>

theorem probe_status_rule:
  "(osrm_get h (route_url baseUrl) = Responds s d \<and> s < 400 \<longrightarrow>
      checkOSRMHealth h baseUrl prof =
        Inr \<lparr>service = None, profile = Some prof, url = baseUrl, status = s, ok = True,
             message = ''OK''\<rparr>)
   \<and> (osrm_get h (route_url baseUrl) = Responds s d \<and> 400 \<le> s \<and> s < 500 \<longrightarrow>
      checkOSRMHealth h baseUrl prof =
        Inr \<lparr>service = None, profile = Some prof, url = baseUrl, status = s, ok = False,
             message = ''HTTP '' @ show_nat s\<rparr>)
   \<and> (osrm_get h (route_url baseUrl) = Responds s d \<and> 500 \<le> s \<longrightarrow>
      (\<exists>m. m \<noteq> [] \<and> checkOSRMHealth h baseUrl prof =
        Inr \<lparr>service = None, profile = Some prof, url = baseUrl, status = 0, ok = False,
             message = m\<rparr>))
   \<and> (osrm_get h (route_url baseUrl) = Rejects e \<longrightarrow>
      (\<exists>m. m \<noteq> [] \<and> checkOSRMHealth h baseUrl prof =
        Inr \<lparr>service = None, profile = Some prof, url = baseUrl, status = 0, ok = False,
             message = m\<rparr>))
   \<and> (vroom_post h baseUrl prof = Responds s d \<and> s < 400 \<longrightarrow>
      checkVroomHealth h baseUrl prof =
        Inr \<lparr>service = Some ''vroom'', profile = Some prof, url = baseUrl, status = s,
             ok = True, message = ''OK''\<rparr>)
   \<and> (vroom_post h baseUrl prof = Responds s d \<and> 400 \<le> s \<and> s < 500 \<longrightarrow>
      checkVroomHealth h baseUrl prof =
        Inr \<lparr>service = Some ''vroom'', profile = Some prof, url = baseUrl, status = s,
             ok = False, message = ''HTTP '' @ show_nat s\<rparr>)
   \<and> (vroom_post h baseUrl prof = Responds s d \<and> 500 \<le> s \<longrightarrow>
      (\<exists>m. m \<noteq> [] \<and> checkVroomHealth h baseUrl prof =
        Inr \<lparr>service = Some ''vroom'', profile = Some prof, url = baseUrl, status = 0,
             ok = False, message = m\<rparr>))
   \<and> (vroom_post h baseUrl prof = Rejects e \<longrightarrow>
      (\<exists>m. m \<noteq> [] \<and> checkVroomHealth h baseUrl prof =
        Inr \<lparr>service = Some ''vroom'', profile = Some prof, url = baseUrl, status = 0,
             ok = False, message = m\<rparr>))
   \<and> (\<exists>r. health h = Inr r)"
  using health_resolves [of h]
  by (auto simp add: probe_defs)

theorem probe_status_rule_witness:
  "osrm_get (sample_services (Responds 200 JNull) (Inr ''PONG''))
      (route_url ''http://osrm-motorbike:5000'') = Responds 200 JNull
   \<and> checkOSRMHealth (sample_services (Responds 200 JNull) (Inr ''PONG''))
        ''http://osrm-motorbike:5000'' ''motorbike'' =
      Inr \<lparr>service = None, profile = Some ''motorbike'', url = ''http://osrm-motorbike:5000'',
           status = 200, ok = True, message = ''OK''\<rparr>
   \<and> vroom_post (sample_services (Responds 404 JNull) (Inr ''PONG''))
        ''http://vroom:3000'' ''smalltruck'' = Responds 404 JNull
   \<and> checkVroomHealth (sample_services (Responds 404 JNull) (Inr ''PONG''))
        ''http://vroom:3000'' ''smalltruck'' =
      Inr \<lparr>service = Some ''vroom'', profile = Some ''smalltruck'', url = ''http://vroom:3000'',
           status = 404, ok = False, message = ''HTTP '' @ show_nat 404\<rparr>
   \<and> osrm_get (sample_services (Responds 503 JNull) (Inr ''PONG''))
      (route_url ''http://osrm-motorbike:5000'') = Responds 503 JNull
   \<and> (\<exists>m. m \<noteq> [] \<and> checkOSRMHealth (sample_services (Responds 503 JNull) (Inr ''PONG''))
        ''http://osrm-motorbike:5000'' ''motorbike'' =
      Inr \<lparr>service = None, profile = Some ''motorbike'', url = ''http://osrm-motorbike:5000'',
           status = 0, ok = False, message = m\<rparr>)
   \<and> vroom_post (sample_services (transport_failure (Some ''ECONNREFUSED'') ''connect'')
        (Inr ''PONG'')) ''http://vroom:3000'' ''motorbike''
      = transport_failure (Some ''ECONNREFUSED'') ''connect''
   \<and> (\<exists>m. m \<noteq> [] \<and> checkVroomHealth
        (sample_services (transport_failure (Some ''ECONNREFUSED'') ''connect'') (Inr ''PONG''))
        ''http://vroom:3000'' ''motorbike'' =
      Inr \<lparr>service = Some ''vroom'', profile = Some ''motorbike'', url = ''http://vroom:3000'',
           status = 0, ok = False, message = m\<rparr>)"
proof -
  let ?h1 = "sample_services (Responds 200 JNull) (Inr ''PONG'')"
  let ?h2 = "sample_services (Responds 404 JNull) (Inr ''PONG'')"
  let ?h3 = "sample_services (Responds 503 JNull) (Inr ''PONG'')"
  let ?h4 = "sample_services (transport_failure (Some ''ECONNREFUSED'') ''connect'')
               (Inr ''PONG'')"
  have a1: "osrm_get ?h1 (route_url ''http://osrm-motorbike:5000'') = Responds 200 JNull"
    and a2: "(200::nat) < 400"
    by (simp_all add: sample_services_def)
  have b1: "vroom_post ?h2 ''http://vroom:3000'' ''smalltruck'' = Responds 404 JNull"
    and b2: "(400::nat) \<le> 404" and b3: "(404::nat) < 500"
    by (simp_all add: sample_services_def)
  have c1: "osrm_get ?h3 (route_url ''http://osrm-motorbike:5000'') = Responds 503 JNull"
    and c2: "(500::nat) \<le> 503"
    by (simp_all add: sample_services_def)
  have d1: "vroom_post ?h4 ''http://vroom:3000'' ''motorbike''
      = transport_failure (Some ''ECONNREFUSED'') ''connect''"
    by (simp add: sample_services_def)
  have d2: "transport_failure (Some ''ECONNREFUSED'') ''connect'' =
      Rejects \<lparr>isAxiosError = True, err_code = Some ''ECONNREFUSED'',
                err_message = ''connect'', err_request = True, err_response = None\<rparr>"
    by (simp add: transport_failure_def)
  note t1 = probe_status_rule [of ?h1 "''http://osrm-motorbike:5000''" 200 JNull "''motorbike''"]
  note t2 = probe_status_rule [of ?h2 "''http://vroom:3000''" 404 JNull "''smalltruck''"]
  note t3 = probe_status_rule [of ?h3 "''http://osrm-motorbike:5000''" 503 JNull "''motorbike''"]
  note t4 = probe_status_rule [of ?h4 "''http://vroom:3000''" _ _ "''motorbike''"
      "\<lparr>isAxiosError = True, err_code = Some ''ECONNREFUSED'',
                err_message = ''connect'', err_request = True, err_response = None\<rparr>"]
  have r1: "checkOSRMHealth ?h1 ''http://osrm-motorbike:5000'' ''motorbike'' =
      Inr \<lparr>service = None, profile = Some ''motorbike'', url = ''http://osrm-motorbike:5000'',
           status = 200, ok = True, message = ''OK''\<rparr>"
    using t1 a1 a2 by blast
  have r2: "checkVroomHealth ?h2 ''http://vroom:3000'' ''smalltruck'' =
      Inr \<lparr>service = Some ''vroom'', profile = Some ''smalltruck'', url = ''http://vroom:3000'',
           status = 404, ok = False, message = ''HTTP '' @ show_nat 404\<rparr>"
    using t2 b1 b2 b3 by blast
  have r3: "\<exists>m. m \<noteq> [] \<and> checkOSRMHealth ?h3 ''http://osrm-motorbike:5000'' ''motorbike'' =
      Inr \<lparr>service = None, profile = Some ''motorbike'', url = ''http://osrm-motorbike:5000'',
           status = 0, ok = False, message = m\<rparr>"
    using t3 c1 c2 by blast
  have r4: "\<exists>m. m \<noteq> [] \<and> checkVroomHealth ?h4 ''http://vroom:3000'' ''motorbike'' =
      Inr \<lparr>service = Some ''vroom'', profile = Some ''motorbike'', url = ''http://vroom:3000'',
           status = 0, ok = False, message = m\<rparr>"
    using t4 d1 d2 by metis
  from a1 r1 b1 r2 c1 r3 d1 r4 show ?thesis
    by blast
qed

text \<open>
  C8 as stated fails for a 5xx response: the probe of a backend that answers 503 carries
  status 0, not 503.
\<close>

theorem server_error_probe_has_status_0:
  "osrm_get (sample_services (Responds 503 JNull) (Inr ''PONG''))
      (route_url ''http://osrm-motorbike:5000'') = Responds 503 JNull
   \<and> checkOSRMHealth (sample_services (Responds 503 JNull) (Inr ''PONG''))
        ''http://osrm-motorbike:5000'' ''motorbike'' =
      Inr \<lparr>service = None, profile = Some ''motorbike'', url = ''http://osrm-motorbike:5000'',
           status = 0, ok = False, message = ''ERR_BAD_RESPONSE''\<rparr>
   \<and> vroom_post (sample_services (Responds 503 JNull) (Inr ''PONG''))
        ''http://vroom:3000'' ''motorbike'' = Responds 503 JNull
   \<and> checkVroomHealth (sample_services (Responds 503 JNull) (Inr ''PONG''))
        ''http://vroom:3000'' ''motorbike'' =
      Inr \<lparr>service = Some ''vroom'', profile = Some ''motorbike'', url = ''http://vroom:3000'',
           status = 0, ok = False, message = ''ERR_BAD_RESPONSE''\<rparr>"
  by (simp add: probe_defs sample_services_def or_else_def)

text \<open>
  C9. The health endpoint always answers with a report whose \<^verbatim>\<open>ok\<close> is the conjunction
  of the \<^verbatim>\<open>ok\<close> of its five probes (two routing backends, two optimizer profiles, the
  store), and the store's probe is \<^verbatim>\<open>ok\<close> exactly when the ping returned \<^verbatim>\<open>PONG\<close>.
\<close>

theorem health_ok_iff_all_ok:
  "\<exists>o1 o2 v1 v2 rc.
      checkOSRMHealth h ''http://osrm-motorbike:5000'' ''motorbike'' = Inr o1
    \<and> checkOSRMHealth h ''http://osrm-small-truck:5000'' ''smalltruck'' = Inr o2
    \<and> checkVroomHealth h (VROOM_URL h) ''motorbike'' = Inr v1
    \<and> checkVroomHealth h (VROOM_URL h) ''smalltruck'' = Inr v2
    \<and> checkRedisHealth h = Inr rc
    \<and> health h =
        Inr \<lparr>report_ok = (ok o1 \<and> ok o2 \<and> ok v1 \<and> ok v2 \<and> ok rc),
             vroom_profiles = [v1, v2], redis = rc, osrm_profiles = [o1, o2]\<rparr>
    \<and> (ok rc \<longleftrightarrow> ping h = Inr ''PONG'')"
proof -
  obtain o1 where o1: "checkOSRMHealth h ''http://osrm-motorbike:5000'' ''motorbike'' = Inr o1"
    using checkOSRMHealth_resolves by blast
  obtain o2 where o2: "checkOSRMHealth h ''http://osrm-small-truck:5000'' ''smalltruck'' = Inr o2"
    using checkOSRMHealth_resolves by blast
  obtain v1 where v1: "checkVroomHealth h (VROOM_URL h) ''motorbike'' = Inr v1"
    using checkVroomHealth_resolves by blast
  obtain v2 where v2: "checkVroomHealth h (VROOM_URL h) ''smalltruck'' = Inr v2"
    using checkVroomHealth_resolves by blast
  obtain rc where rc: "checkRedisHealth h = Inr rc"
    using checkRedisHealth_resolves by blast
  have pong: "ok rc \<longleftrightarrow> ping h = Inr ''PONG''"
    using rc by (auto simp add: checkRedisHealth_def try_await_def await_def split: sum.splits)
  have "health h =
        Inr \<lparr>report_ok = (ok o1 \<and> ok o2 \<and> ok v1 \<and> ok v2 \<and> ok rc),
             vroom_profiles = [v1, v2], redis = rc, osrm_profiles = [o1, o2]\<rparr>"
    by (simp add: health_def await_def o1 o2 v1 v2 rc)
  with o1 o2 v1 v2 rc pong show ?thesis
    by blast
qed

theorem health_ok_iff_all_ok_witness:
  "(\<exists>r. health (sample_services (Responds 200 JNull) (Inr ''PONG'')) = Inr r \<and> report_ok r)
   \<and> (\<exists>r. health (sample_services (Responds 200 JNull) (Inr ''LOADING'')) = Inr r
          \<and> \<not> report_ok r \<and> \<not> ok (redis r))"
proof -
  let ?h1 = "sample_services (Responds 200 JNull) (Inr ''PONG'')"
  let ?h2 = "sample_services (Responds 200 JNull) (Inr ''LOADING'')"
  have e1: "checkOSRMHealth ?h1 u p =
      Inr \<lparr>service = None, profile = Some p, url = u, status = 200, ok = True,
           message = ''OK''\<rparr>" for u p
    by (simp add: probe_defs sample_services_def)
  have e2: "checkVroomHealth ?h1 u p =
      Inr \<lparr>service = Some ''vroom'', profile = Some p, url = u, status = 200, ok = True,
           message = ''OK''\<rparr>" for u p
    by (simp add: probe_defs sample_services_def)
  have e3: "ping ?h1 = Inr ''PONG''"
    by (simp add: sample_services_def)
  have e4: "ping ?h2 \<noteq> Inr ''PONG''"
    by (simp add: sample_services_def)
  from health_ok_iff_all_ok [of ?h1] e1 e2 e3 have "\<exists>r. health ?h1 = Inr r \<and> report_ok r"
    by force
  moreover from health_ok_iff_all_ok [of ?h2] e4
  have "\<exists>r. health ?h2 = Inr r \<and> \<not> report_ok r \<and> \<not> ok (redis r)"
    by force
  ultimately show ?thesis
    by blast
qed


section \<open>Further properties of the handler\<close>

text \<open>
  After the entry has expired (3600 seconds or more after the write), an identical request
  is forwarded again, tagged \<^verbatim>\<open>MISS\<close>, and the entry is replaced by the new response with
  a new expiry.
\<close>

theorem expired_entry_is_refreshed:
  assumes "get_fault e1 = None"
    and "\<not> truthy (lookup st (now e1) (makeKey body))"
    and "upstream e1 = Responds 200 d1"
    and "setEx_fault e1 = None"
    and "get_fault e2 = None"
    and "now e1 + 3600 \<le> now e2"
    and "upstream e2 = Responds 200 d2"
    and "setEx_fault e2 = None"
  shows "forwarded (serve e2 body (cache (serve e1 body st)))
    \<and> x_cache (serve e2 body (cache (serve e1 body st))) = Some ''MISS''
    \<and> sent (res (serve e2 body (cache (serve e1 body st)))) = Some d2
    \<and> cache (serve e2 body (cache (serve e1 body st))) (makeKey body)
        = Some (JSON_stringify d2, now e2 + 3600)"
proof -
  let ?st1 = "st(makeKey body \<mapsto> (JSON_stringify d1, now e1 + 3600))"
  have first: "cache (serve e1 body st) = ?st1"
    using assms(1-4) by (simp add: serve_miss_200)
  have miss: "\<not> truthy (lookup ?st1 (now e2) (makeKey body))"
    using assms(6) by simp
  show ?thesis
    unfolding first
    using serve_miss_200 [OF assms(5) miss assms(7) assms(8)]
    by (simp add: forwarded_def is_post_def x_cache_def del: lookup_upd_same)
qed

theorem expired_entry_is_refreshed_witness:
  "get_fault (sample_env 100 None None (Responds 200 JNull)) = None
   \<and> \<not> truthy (lookup Map.empty (now (sample_env 100 None None (Responds 200 JNull)))
         (makeKey sample_body))
   \<and> upstream (sample_env 100 None None (Responds 200 JNull)) = Responds 200 JNull
   \<and> setEx_fault (sample_env 100 None None (Responds 200 JNull)) = None
   \<and> get_fault (sample_env 3700 None None (Responds 200 sample_routes)) = None
   \<and> now (sample_env 100 None None (Responds 200 JNull)) + 3600
       \<le> now (sample_env 3700 None None (Responds 200 sample_routes))
   \<and> upstream (sample_env 3700 None None (Responds 200 sample_routes))
       = Responds 200 sample_routes
   \<and> setEx_fault (sample_env 3700 None None (Responds 200 sample_routes)) = None
   \<and> x_cache (serve (sample_env 3700 None None (Responds 200 sample_routes)) sample_body
        (cache (serve (sample_env 100 None None (Responds 200 JNull)) sample_body Map.empty)))
       = Some ''MISS''
   \<and> sent (res (serve (sample_env 3700 None None (Responds 200 sample_routes)) sample_body
        (cache (serve (sample_env 100 None None (Responds 200 JNull)) sample_body Map.empty))))
       = Some sample_routes"
proof -
  let ?e1 = "sample_env 100 None None (Responds 200 JNull)"
  let ?e2 = "sample_env 3700 None None (Responds 200 sample_routes)"
  have h1: "get_fault ?e1 = None" by simp
  have h2: "\<not> truthy (lookup Map.empty (now ?e1) (makeKey sample_body))" by simp
  have h3: "upstream ?e1 = Responds 200 JNull" by simp
  have h4: "setEx_fault ?e1 = None" by simp
  have h5: "get_fault ?e2 = None" by simp
  have h6: "now ?e1 + 3600 \<le> now ?e2" by simp
  have h7: "upstream ?e2 = Responds 200 sample_routes" by simp
  have h8: "setEx_fault ?e2 = None" by simp
  from expired_entry_is_refreshed [OF h1 h2 h3 h4 h5 h6 h7 h8] h1 h2 h3 h4 h5 h6 h7 h8
  show ?thesis
    by blast
qed

text \<open>
  Whatever the store and the upstream do, the handler does not throw and sends a response.
\<close>

lemma catch_block_answers:
  "\<exists>w'. catch_block err w = (Inr (), w') \<and> sent (res w') \<noteq> None"
  by (simp add: catch_block_def bind_io_def console_error_def res_status_def res_json_def
      emit_def Let_def split: option.splits prod.splits)

theorem handler_always_answers:
  "fst (post_handler e body \<lparr>cache = st, effects = [], res = fresh_response\<rparr>) = Inr ()
   \<and> sent (res (serve e body st)) \<noteq> None"
proof -
  let ?w0 = "\<lparr>cache = st, effects = [], res = fresh_response\<rparr>"
  obtain r w1 where t: "try_block e body (makeKey body) ?w0 = (r, w1)"
    by (cases "try_block e body (makeKey body) ?w0")
  show ?thesis
  proof (cases r)
    case (Inl err)
    obtain w' where "catch_block err w1 = (Inr (), w')" "sent (res w') \<noteq> None"
      using catch_block_answers by blast
    with t Inl show ?thesis
      by (simp add: serve_def post_handler_def try_catch_def)
  next
    case (Inr u)
    have "sent (res w1) \<noteq> None"
      using t Inr
      by (auto simp add: try_block_def forward_def bind_io_def return_io_def redis_get_def
          redis_setEx_def axios_post_def JSON_parse_io_def res_set_def res_status_def
          res_json_def emit_def fresh_response_def
          split: option.splits prod.splits sum.splits if_splits)
    with t Inr show ?thesis
      by (simp add: serve_def post_handler_def try_catch_def)
  qed
qed

text \<open>
  When axios rejects with an error that carries a response, the catch block passes the
  response's status through, with its data when that is an object (or null) and wrapped
  as \<^verbatim>\<open>{error: String(data)}\<close> otherwise; nothing is cached.
\<close>

theorem upstream_error_passthrough:
  assumes "get_fault e = None"
    and "\<not> truthy (lookup st (now e) (makeKey body))"
    and "upstream e = Rejects err"
    and "isAxiosError err" and "err_response err = Some (s, d)"
  shows "statusCode (res (serve e body st)) = s
    \<and> sent (res (serve e body st)) =
        Some (if typeof_object d then d else JObj [(''error'', JStr (js_String d))])
    \<and> x_cache (serve e body st) = None
    \<and> \<not> cache_written (serve e body st)"
  using assms
  by (simp add: serve_miss_rejects catch_block_def bind_io_def console_error_def
      res_status_def res_json_def emit_def fresh_response_def cache_written_def is_write_def
      x_cache_def)

theorem upstream_error_passthrough_witness:
  "get_fault (sample_env 0 None None (Rejects \<lparr>isAxiosError = True,
      err_code = Some ''ERR_BAD_RESPONSE'', err_message = ''Request failed'',
      err_request = True, err_response = Some (500, JStr ''oops'')\<rparr>)) = None
   \<and> statusCode (res (serve (sample_env 0 None None (Rejects \<lparr>isAxiosError = True,
      err_code = Some ''ERR_BAD_RESPONSE'', err_message = ''Request failed'',
      err_request = True, err_response = Some (500, JStr ''oops'')\<rparr>)) sample_body Map.empty))
      = 500
   \<and> sent (res (serve (sample_env 0 None None (Rejects \<lparr>isAxiosError = True,
      err_code = Some ''ERR_BAD_RESPONSE'', err_message = ''Request failed'',
      err_request = True, err_response = Some (500, JStr ''oops'')\<rparr>)) sample_body Map.empty))
      = Some (JObj [(''error'', JStr ''oops'')])"
proof -
  let ?err = "\<lparr>isAxiosError = True, err_code = Some ''ERR_BAD_RESPONSE'',
      err_message = ''Request failed'', err_request = True,
      err_response = Some (500, JStr ''oops'')\<rparr>"
  let ?e = "sample_env 0 None None (Rejects ?err)"
  have h1: "get_fault ?e = None" by simp
  have h2: "\<not> truthy (lookup Map.empty (now ?e) (makeKey sample_body))" by simp
  have h3: "upstream ?e = Rejects ?err" by simp
  have h4: "isAxiosError ?err" by simp
  have h5: "err_response ?err = Some (500, JStr ''oops'')" by simp
  have v: "(if typeof_object (JStr ''oops'') then JStr ''oops''
            else JObj [(''error'', JStr (js_String (JStr ''oops'')))])
           = JObj [(''error'', JStr ''oops'')]"
    by (simp add: typeof_object_def js_String_def)
  from upstream_error_passthrough [OF h1 h2 h3 h4 h5] h1 show ?thesis
    unfolding v by blast
qed


text \<open>
  In the first revision of the handler a miss whose upstream response is not 2xx does not
  pass the response on: axios rejects, and the client gets the generic 500. (The current
  handler passes the same response through.)
\<close>

theorem first_revision_fails_on_non_2xx:
  assumes "get_fault e = None"
    and "\<not> truthy (lookup st (now e) (makeKey body))"
    and "upstream e = Responds s d"
    and "0 < s" and "s < 200 \<or> 300 \<le> s"
  shows "statusCode (res (serve_v0 e body st)) = 500
    \<and> sent (res (serve_v0 e body st)) = Some internal_error_body
    \<and> x_cache (serve_v0 e body st) = None
    \<and> cache (serve_v0 e body st) = st"
  using assms
  by (auto simp add: serve_v0_def post_handler_v0_def try_block_v0_def forward_v0_def
      catch_block_v0_def try_catch_def bind_io_def return_io_def redis_get_def axios_post_def
      res_set_def res_status_def res_json_def console_error_def emit_def settle_def
      fresh_response_def Let_def internal_error_body_def x_cache_def truthy_def
      split: option.splits)

theorem first_revision_fails_on_non_2xx_witness:
  "get_fault (sample_env 0 None None (Responds 404 JNull)) = None
   \<and> \<not> truthy (lookup Map.empty (now (sample_env 0 None None (Responds 404 JNull)))
         (makeKey sample_body))
   \<and> upstream (sample_env 0 None None (Responds 404 JNull)) = Responds 404 JNull
   \<and> statusCode (res (serve_v0 (sample_env 0 None None (Responds 404 JNull)) sample_body
        Map.empty)) = 500
   \<and> statusCode (res (serve (sample_env 0 None None (Responds 404 JNull)) sample_body
        Map.empty)) = 404"
proof -
  let ?e = "sample_env 0 None None (Responds 404 JNull)"
  have h1: "get_fault ?e = None" by simp
  have h2: "\<not> truthy (lookup Map.empty (now ?e) (makeKey sample_body))" by simp
  have h3: "upstream ?e = Responds 404 JNull" by simp
  have h4: "(0::nat) < 404" by simp
  have h5: "(404::nat) < 200 \<or> (300::nat) \<le> 404" by simp
  have new: "statusCode (res (serve ?e sample_body Map.empty)) = 404"
    by (simp add: serve_miss_responds)
  from first_revision_fails_on_non_2xx [OF h1 h2 h3 h4 h5] h1 h2 h3 new show ?thesis
    by blast
qed

end
